theory Spec2Isabelle
  imports Main
begin

section \<open>Data model of \<^verbatim>\<open>parse_tree.py\<close>\<close>

text \<open>
  An \<^verbatim>\<open>nltk.Tree\<close> is a label with a list of children; a child is another tree, a
  token (\<^verbatim>\<open>str\<close>), and after evaluation a vector or \<^verbatim>\<open>None\<close>. The four
  kinds of Python object that occur are the four constructors of \<open>node\<close>. Strings are
  ASCII. A vector is a one-dimensional array whose length is not 1 (the embeddings of
  \<^verbatim>\<open>model_training.py\<close> have 25 components), so \<^verbatim>\<open>len(v) == 1\<close> is false
  for it and its elements are numbers, which have no \<^verbatim>\<open>len\<close>.
\<close>

datatype 'v node =
    Tree string "'v node list"
  | Str string
  | Vec 'v
  | NoneV

text \<open>
  The exceptions the code can raise. \<open>ShapeMismatchError\<close> is the error the
  specification names for a tag/token count mismatch; no class of that name exists in
  the source and no function below returns it.
\<close>

datatype error =
    AssertionError
  | AttributeError
  | IndexError
  | TypeError
  | ValueError
  | ShapeMismatchError

text \<open>
  The fields of a \<^verbatim>\<open>ParseTree\<close> object. The Vector Source is used through
  \<^verbatim>\<open>safe_lookup\<close> only, which is total: a token has a vector or it has none.
\<close>

record 'v ParseTree =
  data :: "'v node"
  default_op :: "'v \<Rightarrow> 'v \<Rightarrow> 'v"
  word_vectors :: "string \<Rightarrow> 'v option"

text \<open>
  The two operators of the library module \<^verbatim>\<open>hyponymy_library\<close> (imported as
  \<^verbatim>\<open>hl\<close>) that the class names: \<^verbatim>\<open>hl.mult\<close>, the default of the constructor, and
  \<^verbatim>\<open>hl.mmult1\<close>, the projection. The module is not part of the sources, so the two
  operators are parameters.
\<close>

record 'v hl =
  mult :: "'v \<Rightarrow> 'v \<Rightarrow> 'v"
  mmult1 :: "'v \<Rightarrow> 'v \<Rightarrow> 'v"

definition ignore_labels :: "string list" where
  "ignore_labels = [''ls'', ''pos'', ''.'', ''dt'', '','']"

definition hadamard_labels :: "string list" where
  "hadamard_labels = [''ex'', ''cd'', ''md'', ''pdt'', ''prp'', ''prp$'', ''rp'', ''uh'', ''to'']"

definition adjective_labels :: "string list" where
  "adjective_labels = [''in'', ''jj'']"

section \<open>Python primitives\<close>

text \<open>\<^verbatim>\<open>str.lower()\<close> on ASCII: the letters A to Z move to a to z.\<close>

definition lower_char :: "char \<Rightarrow> char" where
  "lower_char c =
     (case map_of (zip ''ABCDEFGHIJKLMNOPQRSTUVWXYZ'' ''abcdefghijklmnopqrstuvwxyz'') c of
        None \<Rightarrow> c
      | Some d \<Rightarrow> d)"

definition lower :: "string \<Rightarrow> string" where
  "lower s = map lower_char s"

text \<open>\<^verbatim>\<open>t.label()\<close>: only a tree has the method.\<close>

fun label :: "'v node \<Rightarrow> error + string" where
  "label (Tree l cs) = Inr l"
| "label (Str s) = Inl AttributeError"
| "label (Vec v) = Inl AttributeError"
| "label NoneV = Inl AttributeError"

text \<open>
  \<^verbatim>\<open>t[0]\<close>. The first character of a string is a string of length one. An element
  of a vector is a number, which is no \<open>node\<close>; the code never indexes a vector (a
  vector is indexed only if it stands in \<^verbatim>\<open>tree_list\<close>, and \<open>tree_is_leaf\<close> and
  \<open>evaluate'\<close> keep it out), so that case is given \<open>TypeError\<close>.
\<close>

fun getitem0 :: "'v node \<Rightarrow> error + 'v node" where
  "getitem0 (Tree l []) = Inl IndexError"
| "getitem0 (Tree l (c # cs)) = Inr c"
| "getitem0 (Str []) = Inl IndexError"
| "getitem0 (Str (c # cs)) = Inr (Str [c])"
| "getitem0 (Vec v) = Inl TypeError"
| "getitem0 NoneV = Inl TypeError"

fun is_Tree :: "'v node \<Rightarrow> bool" where
  "is_Tree (Tree l cs) = True"
| "is_Tree (Str s) = False"
| "is_Tree (Vec v) = False"
| "is_Tree NoneV = False"

text \<open>\<^verbatim>\<open>word_vectors.safe_lookup(token)\<close>: the vector of the token, or \<^verbatim>\<open>None\<close>.\<close>

definition safe_lookup :: "(string \<Rightarrow> 'v option) \<Rightarrow> string \<Rightarrow> 'v node" where
  "safe_lookup wv w = (case wv w of None \<Rightarrow> NoneV | Some v \<Rightarrow> Vec v)"

text \<open>
  \<^verbatim>\<open>if isinstance(vector, str): vector = self.word_vectors.safe_lookup(vector)\<close>,
  the resolution of a payload that \<open>evaluate'\<close> and \<open>evaluate_2\<close> both do.
\<close>

fun resolve :: "'v ParseTree \<Rightarrow> 'v node \<Rightarrow> 'v node" where
  "resolve self (Str w) = safe_lookup (word_vectors self) w"
| "resolve self (Tree l cs) = Tree l cs"
| "resolve self (Vec v) = Vec v"
| "resolve self NoneV = NoneV"

text \<open>
  A numeric operator applied to two payloads. Both are vectors wherever the code calls
  it (a payload is resolved, and tested against \<^verbatim>\<open>None\<close>, before); on anything else
  the operator has no value, which is \<open>TypeError\<close> here.
\<close>

fun apply_op :: "('v \<Rightarrow> 'v \<Rightarrow> 'v) \<Rightarrow> 'v node \<Rightarrow> 'v node \<Rightarrow> error + 'v node" where
  "apply_op f (Vec a) (Vec b) = Inr (Vec (f a b))"
| "apply_op f x y = Inl TypeError"

section \<open>The Operator Selector\<close>

text \<open>
  \<^verbatim>\<open>__binary_operation\<close>: the two labels are looked up in \<open>ignore_labels\<close> as they
  are (\<^verbatim>\<open>label1 in self.ignore_labels\<close>).
\<close>

definition binary_operation ::
  "'v ParseTree \<Rightarrow> string \<Rightarrow> string \<Rightarrow> 'v node \<Rightarrow> 'v node \<Rightarrow> error + 'v node" where
  "binary_operation self label1 label2 =
     (if label1 \<in> set ignore_labels then
        (if label2 \<in> set ignore_labels then (\<lambda>x y. Inr NoneV) else (\<lambda>x y. Inr y))
      else if label2 \<in> set ignore_labels then (\<lambda>x y. Inr x)
      else apply_op (default_op self))"

definition is_verb :: "string \<Rightarrow> bool" where
  "is_verb l = (case l of [] \<Rightarrow> False | c # cs \<Rightarrow> lower [c] = ''v'')"

definition is_noun :: "string \<Rightarrow> bool" where
  "is_noun l =
     (case l of [] \<Rightarrow> False
      | c # cs \<Rightarrow> if hd (lower l) = CHR ''n'' then True else lower l = ''wp'')"

definition is_adjective :: "string \<Rightarrow> bool" where
  "is_adjective l =
     (if l = [] then False else if lower l \<in> set adjective_labels then True else False)"

text \<open>
  \<^verbatim>\<open>__tree_is_leaf\<close>: one child that is no tree. \<^verbatim>\<open>len\<close> of a string counts its
  characters and \<^verbatim>\<open>len(None)\<close> raises.
\<close>

fun tree_is_leaf :: "'v node \<Rightarrow> error + bool" where
  "tree_is_leaf (Tree l cs) = Inr (case cs of [c] \<Rightarrow> \<not> is_Tree c | _ \<Rightarrow> False)"
| "tree_is_leaf (Str s) = Inr (length s = 1)"
| "tree_is_leaf (Vec v) = Inr False"
| "tree_is_leaf NoneV = Inl TypeError"

section \<open>The Composition Engine\<close>

text \<open>\<^verbatim>\<open>__evaluate_2\<close>, statement by statement.\<close>

definition evaluate_2 ::
  "'v ParseTree \<Rightarrow> 'v node \<Rightarrow> 'v node \<Rightarrow> string \<Rightarrow> error + 'v node" where
  "evaluate_2 self tree1 tree2 parent_label =
     (case label tree1 of Inl e \<Rightarrow> Inl e | Inr label1 \<Rightarrow>
      case label tree2 of Inl e \<Rightarrow> Inl e | Inr label2 \<Rightarrow>
      case getitem0 tree1 of Inl e \<Rightarrow> Inl e | Inr p1 \<Rightarrow>
      let vector1 = resolve self p1 in
      case getitem0 tree2 of Inl e \<Rightarrow> Inl e | Inr p2 \<Rightarrow>
      let vector2 = resolve self p2;
          operation = binary_operation self label1 label2
      in if vector1 = NoneV then
           (if vector2 = NoneV then Inr (Tree parent_label [NoneV])
            else Inr (Tree parent_label [vector2]))
         else if vector2 = NoneV then Inr (Tree parent_label [vector1])
         else (case operation vector1 vector2 of Inl e \<Rightarrow> Inl e
               | Inr r \<Rightarrow> Inr (Tree parent_label [r])))"

text \<open>
  \<^verbatim>\<open>__evaluate_left2right\<close>: the loop over \<^verbatim>\<open>tree_list[1:]\<close>, the running tree as
  its state.
\<close>

fun left2right_loop :: "'v ParseTree \<Rightarrow> 'v node \<Rightarrow> 'v node list \<Rightarrow> error + 'v node" where
  "left2right_loop self current_tree [] = Inr current_tree"
| "left2right_loop self current_tree (tree # rest) =
     (case label current_tree of Inl e \<Rightarrow> Inl e | Inr l \<Rightarrow>
      case evaluate_2 self current_tree tree l of Inl e \<Rightarrow> Inl e
      | Inr t \<Rightarrow> left2right_loop self t rest)"

definition evaluate_left2right :: "'v ParseTree \<Rightarrow> 'v node list \<Rightarrow> error + 'v node" where
  "evaluate_left2right self tree_list =
     (case tree_list of [] \<Rightarrow> Inl IndexError
      | t # rest \<Rightarrow> left2right_loop self t rest)"

text \<open>
  \<^verbatim>\<open>__evaluate_right2left\<close>: the loop over \<^verbatim>\<open>reversed(tree_list[:-1])\<close>, started
  at \<^verbatim>\<open>tree_list[-1]\<close>.
\<close>

fun right2left_loop :: "'v ParseTree \<Rightarrow> 'v node \<Rightarrow> 'v node list \<Rightarrow> error + 'v node" where
  "right2left_loop self current_tree [] = Inr current_tree"
| "right2left_loop self current_tree (tree # rest) =
     (case label current_tree of Inl e \<Rightarrow> Inl e | Inr l \<Rightarrow>
      case evaluate_2 self tree current_tree l of Inl e \<Rightarrow> Inl e
      | Inr t \<Rightarrow> right2left_loop self t rest)"

definition evaluate_right2left :: "'v ParseTree \<Rightarrow> 'v node list \<Rightarrow> error + 'v node" where
  "evaluate_right2left self tree_list =
     (if tree_list = [] then Inl IndexError
      else right2left_loop self (last tree_list) (rev (butlast tree_list)))"

text \<open>\<^verbatim>\<open>__contains_adjective\<close>: the scan stops at the first adjective label.\<close>

fun contains_adjective :: "'v node list \<Rightarrow> error + bool" where
  "contains_adjective [] = Inr False"
| "contains_adjective (tree # rest) =
     (case label tree of Inl e \<Rightarrow> Inl e
      | Inr l \<Rightarrow> if is_adjective l then Inr True else contains_adjective rest)"

text \<open>
  \<^verbatim>\<open>__evaluate_greater_than_2\<close> writes the field \<^verbatim>\<open>default_op\<close>, so it returns the
  object with its result. An exception inside the right-to-left fold leaves the
  projection in the field: the source has no \<^verbatim>\<open>finally\<close>.
\<close>

definition evaluate_greater_than_2 ::
  "'v hl \<Rightarrow> 'v ParseTree \<Rightarrow> 'v node list \<Rightarrow> string \<Rightarrow> (error + 'v node) \<times> 'v ParseTree" where
  "evaluate_greater_than_2 lib self tree_list parent_label =
     (if \<not> 2 < length tree_list then (Inl AssertionError, self)
      else case contains_adjective tree_list of
        Inl e \<Rightarrow> (Inl e, self)
      | Inr True \<Rightarrow>
          (let previous_default_op = default_op self;
               self1 = self\<lparr>default_op := mmult1 lib\<rparr>
           in case evaluate_right2left self1 tree_list of
                Inl e \<Rightarrow> (Inl e, self1)
              | Inr evaluated_tree \<Rightarrow>
                  (let self2 = self1\<lparr>default_op := previous_default_op\<rparr>
                   in case getitem0 evaluated_tree of
                        Inl e \<Rightarrow> (Inl e, self2)
                      | Inr p \<Rightarrow> (Inr (Tree parent_label [p]), self2)))
      | Inr False \<Rightarrow>
          (case evaluate_left2right self tree_list of
             Inl e \<Rightarrow> (Inl e, self)
           | Inr evaluated_tree \<Rightarrow>
               (case getitem0 evaluated_tree of
                  Inl e \<Rightarrow> (Inl e, self)
                | Inr p \<Rightarrow> (Inr (Tree parent_label [p]), self))))"

text \<open>
  \<^verbatim>\<open>__evaluate\<close>, named \<open>evaluate'\<close> here, with the loop over the children as
  \<open>evaluate_children\<close>. Iterating a string yields its characters, each a leaf by
  \<open>tree_is_leaf\<close>; every branch after the loop then calls \<^verbatim>\<open>tree.label()\<close> on the
  string, so a string in place of a tree is \<open>AttributeError\<close>. Iterating
  \<^verbatim>\<open>None\<close>, and taking \<^verbatim>\<open>len\<close> of the numbers a vector iterates to, is
  \<open>TypeError\<close>.
\<close>

fun evaluate' :: "'v hl \<Rightarrow> 'v ParseTree \<Rightarrow> 'v node \<Rightarrow> (error + 'v node) \<times> 'v ParseTree"
  and evaluate_children ::
    "'v hl \<Rightarrow> 'v ParseTree \<Rightarrow> 'v node list \<Rightarrow> (error + 'v node list) \<times> 'v ParseTree" where
  "evaluate' lib self (Tree l cs) =
     (case evaluate_children lib self cs of
        (Inl e, self1) \<Rightarrow> (Inl e, self1)
      | (Inr tree_list, self1) \<Rightarrow>
          if length tree_list = 1 then
            (case getitem0 (tree_list ! 0) of
               Inl e \<Rightarrow> (Inl e, self1)
             | Inr vector1 \<Rightarrow> (Inr (Tree l [resolve self1 vector1]), self1))
          else if length tree_list = 2 then
            (evaluate_2 self1 (tree_list ! 0) (tree_list ! 1) l, self1)
          else evaluate_greater_than_2 lib self1 tree_list l)"
| "evaluate' lib self (Str s) = (Inl AttributeError, self)"
| "evaluate' lib self (Vec v) = (Inl TypeError, self)"
| "evaluate' lib self NoneV = (Inl TypeError, self)"
| "evaluate_children lib self [] = (Inr [], self)"
| "evaluate_children lib self (child # rest) =
     (case tree_is_leaf child of
        Inl e \<Rightarrow> (Inl e, self)
      | Inr True \<Rightarrow>
          (case evaluate_children lib self rest of
             (Inl e, self2) \<Rightarrow> (Inl e, self2)
           | (Inr ts, self2) \<Rightarrow> (Inr (child # ts), self2))
      | Inr False \<Rightarrow>
          (case evaluate' lib self child of
             (Inl e, self1) \<Rightarrow> (Inl e, self1)
           | (Inr t, self1) \<Rightarrow>
               (case evaluate_children lib self1 rest of
                  (Inl e, self2) \<Rightarrow> (Inl e, self2)
                | (Inr ts, self2) \<Rightarrow> (Inr (t # ts), self2))))"

text \<open>\<^verbatim>\<open>evaluate\<close>: the field \<^verbatim>\<open>data\<close> is assigned when \<^verbatim>\<open>__evaluate\<close> returns.\<close>

definition evaluate :: "'v hl \<Rightarrow> 'v ParseTree \<Rightarrow> (error + unit) \<times> 'v ParseTree" where
  "evaluate lib self =
     (case evaluate' lib self (data self) of
        (Inl e, self1) \<Rightarrow> (Inl e, self1)
      | (Inr t, self1) \<Rightarrow> (Inr (), self1\<lparr>data := t\<rparr>))"

section \<open>Construction\<close>

text \<open>
  \<^verbatim>\<open>str.split(sep)\<close> with a separator given: the string is cut at every occurrence
  of the separator, from the left, and an empty separator is \<open>ValueError\<close>. The
  loop carries the characters of the current piece, reversed.
\<close>

function split_loop :: "string \<Rightarrow> string \<Rightarrow> string \<Rightarrow> string list" where
  "split_loop sep cur [] = [rev cur]"
| "split_loop sep cur (c # cs) =
     (if sep \<noteq> [] \<and> take (length sep) (c # cs) = sep
      then rev cur # split_loop sep [] (drop (length sep) (c # cs))
      else split_loop sep (c # cur) cs)"
  by pat_completeness auto
termination
  by (relation "measure (\<lambda>(sep, cur, s). length s)") auto

definition split :: "string \<Rightarrow> string \<Rightarrow> error + string list" where
  "split s sep = (if sep = [] then Inl ValueError else Inr (split_loop sep [] s))"

text \<open>
  \<^verbatim>\<open>pos_string_to_binary_tree\<close> is \<^verbatim>\<open>Tree.fromstring\<close> of the library nltk and
  nothing more. The library is no part of the repository, so the parser is the
  parameter \<open>fromstring\<close> of every function that reaches it.
\<close>

definition pos_string_to_binary_tree ::
  "(string \<Rightarrow> error + 'v node) \<Rightarrow> string \<Rightarrow> error + 'v node" where
  "pos_string_to_binary_tree fromstring pos_string = fromstring pos_string"

text \<open>\<^verbatim>\<open>ParseTree.__init__\<close>; a caller that leaves \<^verbatim>\<open>default_op\<close> out passes \<open>mult\<close>.\<close>

definition ParseTree_init ::
  "(string \<Rightarrow> error + 'v node) \<Rightarrow> string \<Rightarrow> (string \<Rightarrow> 'v option) \<Rightarrow> ('v \<Rightarrow> 'v \<Rightarrow> 'v)
     \<Rightarrow> error + 'v ParseTree" where
  "ParseTree_init fromstring binary_parse_string wv op =
     (case pos_string_to_binary_tree fromstring binary_parse_string of
        Inl e \<Rightarrow> Inl e
      | Inr t \<Rightarrow> Inr \<lparr>data = t, default_op = op, word_vectors = wv\<rparr>)"

text \<open>
  \<^verbatim>\<open>from_sentence\<close>. The object is built from \<^verbatim>\<open>'()'\<close> before the sentence is
  split; \<^verbatim>\<open>assert len(tags) == len(leaves), TypeError\<close> raises \<open>AssertionError\<close>,
  the class \<^verbatim>\<open>TypeError\<close> being its message.
\<close>

definition from_sentence ::
  "(string \<Rightarrow> error + 'v node) \<Rightarrow> 'v hl \<Rightarrow> string \<Rightarrow> (string \<Rightarrow> 'v option) \<Rightarrow> string
     \<Rightarrow> string list option \<Rightarrow> error + 'v ParseTree" where
  "from_sentence fromstring lib sentence wv delimiter tags =
     (if CHR ''('' \<notin> set sentence then
        (case ParseTree_init fromstring ''()'' wv (mult lib) of
           Inl e \<Rightarrow> Inl e
         | Inr output \<Rightarrow>
             (case split sentence delimiter of
                Inl e \<Rightarrow> Inl e
              | Inr leaves \<Rightarrow>
                  (case tags of
                     None \<Rightarrow>
                       Inr (output\<lparr>data := Tree ''Root'' (map (\<lambda>leaf. Tree [] [Str leaf]) leaves)\<rparr>)
                   | Some tgs \<Rightarrow>
                       if length tgs \<noteq> length leaves then Inl AssertionError
                       else Inr (output\<lparr>data := Tree ''Root''
                              (map (\<lambda>(tag, leaf). Tree tag [Str leaf]) (zip tgs leaves))\<rparr>))))
      else ParseTree_init fromstring sentence wv (mult lib))"

subsection \<open>A parser for concrete inputs\<close>

text \<open>
  Modelled from the spec: the bracketed input format of its section 6,
  \<^verbatim>\<open>"(LABEL (LABEL token) ...)"\<close> with arbitrary nesting and branching factor, a
  malformed nesting being a parse failure. It stands for \<^verbatim>\<open>Tree.fromstring\<close> of nltk
  (with \<^verbatim>\<open>remove_empty_top_bracketing=False\<close>) where a theorem below needs the tree of
  a concrete string: an opening bracket takes the run of characters that follows it,
  after optional blanks, as the label; a closing bracket ends the node; any other run
  of characters is a token; exactly one tree must stand at the top. Blanks are the
  ASCII white space characters.
\<close>

datatype token = Open string | Close | Leaf string

datatype lexer = Between | Opened | Label string | Word string

definition is_blank :: "char \<Rightarrow> bool" where
  "is_blank c = (c \<in> set [CHR '' '', CHR 0x09, CHR 0x0A, CHR 0x0B, CHR 0x0C, CHR 0x0D])"

fun emit :: "lexer \<Rightarrow> token list" where
  "emit Between = []"
| "emit Opened = [Open []]"
| "emit (Label acc) = [Open (rev acc)]"
| "emit (Word acc) = [Leaf (rev acc)]"

fun grow :: "lexer \<Rightarrow> char \<Rightarrow> lexer" where
  "grow Between c = Word [c]"
| "grow Opened c = Label [c]"
| "grow (Label acc) c = Label (c # acc)"
| "grow (Word acc) c = Word (c # acc)"

fun tokens :: "lexer \<Rightarrow> string \<Rightarrow> token list" where
  "tokens st [] = emit st"
| "tokens st (c # cs) =
     (if c = CHR ''('' then emit st @ tokens Opened cs
      else if c = CHR '')'' then emit st @ Close # tokens Between cs
      else if is_blank c then
        (case st of Opened \<Rightarrow> tokens Opened cs | _ \<Rightarrow> emit st @ tokens Between cs)
      else tokens (grow st c) cs)"

text \<open>
  The stack of open nodes, innermost first, each with its children so far in reverse;
  \<open>roots\<close> holds the finished trees of the top level.
\<close>

fun build :: "(string \<times> 'v node list) list \<Rightarrow> 'v node list \<Rightarrow> token list \<Rightarrow> error + 'v node" where
  "build [] [t] [] = Inr t"
| "build stack roots [] = Inl ValueError"
| "build [] roots (Open l # ts) = (if roots = [] then build [(l, [])] roots ts else Inl ValueError)"
| "build stack roots (Open l # ts) = build ((l, []) # stack) roots ts"
| "build [] roots (Close # ts) = Inl ValueError"
| "build [(l, cs)] roots (Close # ts) = build [] (Tree l (rev cs) # roots) ts"
| "build ((l, cs) # (l', cs') # stack) roots (Close # ts) =
     build ((l', Tree l (rev cs) # cs') # stack) roots ts"
| "build [] roots (Leaf w # ts) = Inl ValueError"
| "build ((l, cs) # stack) roots (Leaf w # ts) = build ((l, Str w # cs) # stack) roots ts"

definition bracket_parse :: "string \<Rightarrow> error + 'v node" where
  "bracket_parse s = build [] [] (tokens Between s)"

section \<open>Notions of the specification\<close>

text \<open>
  The two folds in the specification's words. Right to left: the two rightmost children
  are combined first, the result with the next child to the left, and so on. Left to
  right: the two leftmost first, then rightward. A step is \<open>evaluate_2\<close> under the
  label of the running tree, and an error ends the fold.
\<close>

definition fold_left2right_spec :: "'v ParseTree \<Rightarrow> 'v node list \<Rightarrow> error + 'v node" where
  "fold_left2right_spec self tree_list =
     (case tree_list of [] \<Rightarrow> Inl IndexError
      | t # rest \<Rightarrow>
          foldl (\<lambda>acc tree. case acc of Inl e \<Rightarrow> Inl e
                   | Inr cur \<Rightarrow> (case label cur of Inl e \<Rightarrow> Inl e
                                 | Inr l \<Rightarrow> evaluate_2 self cur tree l))
                (Inr t) rest)"

definition fold_right2left_spec :: "'v ParseTree \<Rightarrow> 'v node list \<Rightarrow> error + 'v node" where
  "fold_right2left_spec self tree_list =
     (if tree_list = [] then Inl IndexError
      else foldr (\<lambda>tree acc. case acc of Inl e \<Rightarrow> Inl e
                   | Inr cur \<Rightarrow> (case label cur of Inl e \<Rightarrow> Inl e
                                 | Inr l \<Rightarrow> evaluate_2 self tree cur l))
                 (butlast tree_list) (Inr (last tree_list)))"

text \<open>The payload of the fold's result under the parent's label.\<close>

definition rewrap :: "string \<Rightarrow> 'v node \<Rightarrow> error + 'v node" where
  "rewrap parent_label t =
     (case getitem0 t of Inl e \<Rightarrow> Inl e | Inr p \<Rightarrow> Inr (Tree parent_label [p]))"

text \<open>
  The shape of a tree: its branching structure and its labels, every payload erased.
\<close>

fun shape :: "'v node \<Rightarrow> unit node" where
  "shape (Tree l cs) = Tree l (map shape cs)"
| "shape (Str s) = NoneV"
| "shape (Vec v) = NoneV"
| "shape NoneV = NoneV"

text \<open>A payload after resolution: a vector or \<^verbatim>\<open>None\<close>.\<close>

fun resolved :: "'v node \<Rightarrow> bool" where
  "resolved (Vec v) = True"
| "resolved NoneV = True"
| "resolved (Str s) = False"
| "resolved (Tree l cs) = False"

text \<open>
  ``Already binary'' as the specification has it: no node with more than two children.
\<close>

fun at_most_two :: "'v node \<Rightarrow> bool" where
  "at_most_two (Tree l cs) = (length cs \<le> 2 \<and> list_all at_most_two cs)"
| "at_most_two (Str s) = True"
| "at_most_two (Vec v) = True"
| "at_most_two NoneV = True"

text \<open>Every node has one child or two.\<close>

fun one_or_two :: "'v node \<Rightarrow> bool" where
  "one_or_two (Tree l cs) = ((length cs = 1 \<or> length cs = 2) \<and> list_all one_or_two cs)"
| "one_or_two (Str s) = True"
| "one_or_two (Vec v) = True"
| "one_or_two NoneV = True"

text \<open>Every node has exactly two children, and the leaves are tokens.\<close>

fun strictly_binary :: "'v node \<Rightarrow> bool" where
  "strictly_binary (Tree l cs) = (length cs = 2 \<and> list_all strictly_binary cs)"
| "strictly_binary (Str s) = True"
| "strictly_binary (Vec v) = False"
| "strictly_binary NoneV = False"

text \<open>
  What \<open>evaluate_2\<close> can work on, and what it returns: an operand is a tree with one
  child that is no tree (or the one-character string that \<open>tree_is_leaf\<close> lets
  through), a wrapped result is a tree with one resolved payload.
\<close>

fun operand :: "'v node \<Rightarrow> bool" where
  "operand (Tree l cs) = (case cs of [p] \<Rightarrow> \<not> is_Tree p | _ \<Rightarrow> False)"
| "operand (Str s) = (length s = 1)"
| "operand (Vec v) = False"
| "operand NoneV = False"

fun wrapped :: "'v node \<Rightarrow> bool" where
  "wrapped (Tree l cs) = (case cs of [p] \<Rightarrow> resolved p | _ \<Rightarrow> False)"
| "wrapped (Str s) = False"
| "wrapped (Vec v) = False"
| "wrapped NoneV = False"

section \<open>Sample data\<close>

text \<open>
  Integers stand for vectors in the concrete instances. The default operator
  \<open>2 * a + b\<close> and the projection \<open>a - b\<close> are neither commutative nor associative,
  so the direction of a fold and the operator it used can be read off its value.
\<close>

definition sample_hl :: "int hl" where
  "sample_hl = \<lparr>mult = (\<lambda>a b. 2 * a + b), mmult1 = (\<lambda>a b. a - b)\<rparr>"

definition sample_vectors :: "string \<Rightarrow> int option" where
  "sample_vectors =
     [''red'' \<mapsto> 2, ''ball'' \<mapsto> 3, ''flies'' \<mapsto> 5, ''cat'' \<mapsto> 7, ''sits'' \<mapsto> 11]"

definition sample_self :: "int ParseTree" where
  "sample_self = \<lparr>data = NoneV, default_op = mult sample_hl, word_vectors = sample_vectors\<rparr>"

section \<open>The Binarizer\<close>

text \<open>
  \<^verbatim>\<open>tree_to_binary\<close>. \<^verbatim>\<open>reduce(f, tree)\<close> without initial value is \<open>TypeError\<close>
  on a tree with no child; on children \<open>c1, c2, c3, ...\<close> it is
  \<open>f (f (f c1 c2) c3) ...\<close>, with \<open>f x y = Tree(label, (tree_to_binary(x),
  tree_to_binary(y)))\<close>: the function is applied to the accumulated tree again at
  every step. \<open>reduce_binary\<close> is that loop, the accumulated tree as its state. A
  vector has a length other than 1 and no \<^verbatim>\<open>label\<close>.
\<close>

function tree_to_binary :: "'v node \<Rightarrow> error + 'v node"
  and reduce_binary :: "string \<Rightarrow> 'v node \<Rightarrow> 'v node list \<Rightarrow> error + 'v node" where
  "tree_to_binary (Str s) = Inr (Str s)"
| "tree_to_binary (Vec v) = Inl AttributeError"
| "tree_to_binary NoneV = Inl TypeError"
| "tree_to_binary (Tree l []) = Inl TypeError"
| "tree_to_binary (Tree l [c]) = tree_to_binary c"
| "tree_to_binary (Tree l (c # d # rest)) = reduce_binary l c (d # rest)"
| "reduce_binary l x [] = Inr x"
| "reduce_binary l x (y # ys) =
     (case tree_to_binary x of Inl e \<Rightarrow> Inl e | Inr x' \<Rightarrow>
      case tree_to_binary y of Inl e \<Rightarrow> Inl e | Inr y' \<Rightarrow>
      reduce_binary l (Tree l [x', y']) ys)"
  by pat_completeness auto

text \<open>
  Termination. The recursion is nested (the function is applied to trees it has built
  itself), so the measure is a weight that \<open>tree_to_binary\<close> does not increase:
  the weight of a node with several children is the weight of the left-leaning spine
  they fold into.
\<close>

fun weight :: "'v node \<Rightarrow> nat" and spine :: "nat \<Rightarrow> 'v node list \<Rightarrow> nat" where
  "weight (Tree l []) = 0"
| "weight (Tree l (c # cs)) = (if cs = [] then Suc (weight c) else spine (weight c) cs)"
| "weight (Str s) = 0"
| "weight (Vec v) = 0"
| "weight NoneV = 0"
| "spine a [] = a"
| "spine a (y # ys) = spine (a + weight y + 2) ys"

definition binary_measure :: "'v node + string \<times> 'v node \<times> 'v node list \<Rightarrow> nat \<times> nat" where
  "binary_measure a =
     (case a of
        Inl t \<Rightarrow> (weight t, (case t of Tree l cs \<Rightarrow> Suc (length cs) | _ \<Rightarrow> 0))
      | Inr (l, x, ys) \<Rightarrow> (spine (weight x) ys, length ys))"

lemma spine_mono: "a \<le> b \<Longrightarrow> spine a ys \<le> spine b ys"
  by (induction ys arbitrary: a b) auto

lemma spine_ge: "a \<le> spine a ys"
proof (induction ys arbitrary: a)
  case Nil
  show ?case by simp
next
  case (Cons y ys)
  have "a \<le> a + weight y + 2" by simp
  also have "\<dots> \<le> spine (a + weight y + 2) ys" by (rule Cons.IH)
  finally show ?case by simp
qed

lemma tree_to_binary_weight:
  "tree_to_binary_reduce_binary_dom (Inl t) \<Longrightarrow> tree_to_binary t = Inr r \<Longrightarrow> weight r \<le> weight (t :: 'v node)"
  "tree_to_binary_reduce_binary_dom (Inr (l, x, ys)) \<Longrightarrow> reduce_binary l x ys = Inr r' \<Longrightarrow> weight r' \<le> spine (weight (x :: 'v node)) ys"
proof (induction t and l x ys arbitrary: r and r' rule: tree_to_binary_reduce_binary.pinduct)
  case (8 l x y ys)
  from 8(1,5) obtain x' y' where x: "tree_to_binary x = Inr x'" and y: "tree_to_binary y = Inr y'"
    and r: "reduce_binary l (Tree l [x', y']) ys = Inr r'"
    by (auto simp: tree_to_binary.psimps reduce_binary.psimps split: sum.splits)
  have "weight x' \<le> weight x" "weight y' \<le> weight y" using 8(2)[OF x] 8(3)[OF x y] by auto
  moreover have "weight r' \<le> spine (weight (Tree l [x', y'])) ys" using 8(4)[OF x y r] .
  ultimately show ?case 
    using spine_mono[of "weight x' + weight y' + 2" "weight x + weight y + 2" ys] by simp
next
  case (5 l c)
  then show ?case by (auto simp: tree_to_binary.psimps intro: le_SucI)
qed (auto simp: tree_to_binary.psimps reduce_binary.psimps)

lemma spine_gt:
  "a < spine (Suc (Suc (a + b))) ys" "b < spine (Suc (Suc (a + b))) ys"
  using spine_ge [of "Suc (Suc (a + b))" ys] by simp_all

termination tree_to_binary
proof (relation "inv_image (less_than <*lex*> less_than) binary_measure")
  show "wf (inv_image (less_than <*lex*> less_than) binary_measure)"
    by (intro wf_inv_image wf_lex_prod wf_less_than)
next
  fix l :: string and c :: "'v node"
  show "(Inl c, Inl (Tree l [c])) \<in> inv_image (less_than <*lex*> less_than) binary_measure"
    by (simp add: binary_measure_def)
next
  fix l :: string and c d :: "'v node" and rest :: "'v node list"
  show "(Inr (l, c, d # rest), Inl (Tree l (c # d # rest)))
          \<in> inv_image (less_than <*lex*> less_than) binary_measure"
    by (simp add: binary_measure_def)
next
  fix l :: string and x y :: "'v node" and ys :: "'v node list"
  show "(Inl x, Inr (l, x, y # ys)) \<in> inv_image (less_than <*lex*> less_than) binary_measure"
    by (simp add: binary_measure_def spine_gt)
next
  fix l :: string and x y x' :: "'v node" and ys :: "'v node list"
  show "(Inl y, Inr (l, x, y # ys)) \<in> inv_image (less_than <*lex*> less_than) binary_measure"
    by (simp add: binary_measure_def spine_gt)
next
  fix l :: string and x y x' y' :: "'v node" and ys :: "'v node list"
  assume "tree_to_binary x = Inr x'" "tree_to_binary_reduce_binary_dom (Inl x)"
    "tree_to_binary y = Inr y'" "tree_to_binary_reduce_binary_dom (Inl y)"
  then have "weight x' \<le> weight x" "weight y' \<le> weight y"
    by (simp_all add: tree_to_binary_weight)
  then have "spine (Suc (Suc (weight x' + weight y'))) ys
        \<le> spine (Suc (Suc (weight x + weight y))) ys"
    by (intro spine_mono) simp
  then show "(Inr (l, Tree l [x', y'], ys), Inr (l, x, y # ys))
          \<in> inv_image (less_than <*lex*> less_than) binary_measure"
    by (auto simp: binary_measure_def)
qed

section \<open>The Operator Selector and the two-child evaluation\<close>



text \<open>
  C2. In a two-child evaluation, with the payloads of both operands resolved: when both
  are \<^verbatim>\<open>None\<close> the result is \<^verbatim>\<open>None\<close> under the parent label; when exactly one
  is \<^verbatim>\<open>None\<close> the result is the other value, whatever the two labels are.
\<close>

theorem evaluate_2_absent:
  "(resolve self p1 = NoneV \<and> resolve self p2 = NoneV \<longrightarrow>
      evaluate_2 self (Tree label1 (p1 # r1)) (Tree label2 (p2 # r2)) parent_label
        = Inr (Tree parent_label [NoneV])) \<and>
   (resolve self p1 = NoneV \<and> resolve self p2 \<noteq> NoneV \<longrightarrow>
      evaluate_2 self (Tree label1 (p1 # r1)) (Tree label2 (p2 # r2)) parent_label
        = Inr (Tree parent_label [resolve self p2])) \<and>
   (resolve self p1 \<noteq> NoneV \<and> resolve self p2 = NoneV \<longrightarrow>
      evaluate_2 self (Tree label1 (p1 # r1)) (Tree label2 (p2 # r2)) parent_label
        = Inr (Tree parent_label [resolve self p1]))"
  by (simp add: evaluate_2_def Let_def)

theorem evaluate_2_absent_witness:
  "evaluate_2 \<lparr>data = NoneV, default_op = (+), word_vectors = [''cat'' \<mapsto> (7::nat)]\<rparr>
       (Tree ''dt'' [Str ''the'']) (Tree '','' [NoneV]) ''NP'' = Inr (Tree ''NP'' [NoneV]) \<and>
   evaluate_2 \<lparr>data = NoneV, default_op = (+), word_vectors = [''cat'' \<mapsto> (7::nat)]\<rparr>
       (Tree ''dt'' [Str ''the'']) (Tree ''dt'' [Str ''cat'']) ''NP'' = Inr (Tree ''NP'' [Vec 7]) \<and>
   evaluate_2 \<lparr>data = NoneV, default_op = (+), word_vectors = [''cat'' \<mapsto> (7::nat)]\<rparr>
       (Tree ''dt'' [Vec 3]) (Tree ''dt'' [Str ''the'']) ''NP'' = Inr (Tree ''NP'' [Vec 3])"
  using evaluate_2_absent [of "\<lparr>data = NoneV, default_op = (+), word_vectors = [''cat'' \<mapsto> (7::nat)]\<rparr>"
      "Str ''the''" "NoneV" "''dt''" "[]" "'',''" "[]" "''NP''"]
    evaluate_2_absent [of "\<lparr>data = NoneV, default_op = (+), word_vectors = [''cat'' \<mapsto> (7::nat)]\<rparr>"
      "Str ''the''" "Str ''cat''" "''dt''" "[]" "''dt''" "[]" "''NP''"]
    evaluate_2_absent [of "\<lparr>data = NoneV, default_op = (+), word_vectors = [''cat'' \<mapsto> (7::nat)]\<rparr>"
      "Vec 3" "Str ''the''" "''dt''" "[]" "''dt''" "[]" "''NP''"]
  by (simp add: safe_lookup_def)

section \<open>Nodes with more than two children\<close>

text \<open>The two loops of the source are the folds of the specification.\<close>

lemma foldl_Inl:
  "foldl (\<lambda>acc tree. case acc of Inl e \<Rightarrow> Inl e | Inr cur \<Rightarrow> f cur tree) (Inl e) ts = Inl e"
  by (induction ts) auto

lemma left2right_loop_foldl:
  "left2right_loop self cur ts =
     foldl (\<lambda>acc tree. case acc of Inl e \<Rightarrow> Inl e
              | Inr cur \<Rightarrow> (case label cur of Inl e \<Rightarrow> Inl e
                            | Inr l \<Rightarrow> evaluate_2 self cur tree l))
           (Inr cur) ts"
proof (induction ts arbitrary: cur)
  case Nil
  show ?case by simp
next
  case (Cons t ts)
  show ?case
    by (cases "label cur"; cases "evaluate_2 self cur t (projr (label cur))")
       (simp_all add: Cons.IH foldl_Inl)
qed

lemma right2left_loop_foldl:
  "right2left_loop self cur ts =
     foldl (\<lambda>acc tree. case acc of Inl e \<Rightarrow> Inl e
              | Inr cur \<Rightarrow> (case label cur of Inl e \<Rightarrow> Inl e
                            | Inr l \<Rightarrow> evaluate_2 self tree cur l))
           (Inr cur) ts"
proof (induction ts arbitrary: cur)
  case Nil
  show ?case by simp
next
  case (Cons t ts)
  show ?case
    by (cases "label cur"; cases "evaluate_2 self t cur (projr (label cur))")
       (simp_all add: Cons.IH foldl_Inl)
qed

lemma evaluate_left2right_spec:
  "evaluate_left2right self ts = fold_left2right_spec self ts"
  by (simp add: evaluate_left2right_def fold_left2right_spec_def left2right_loop_foldl
      split: list.splits)

lemma evaluate_right2left_spec:
  "evaluate_right2left self ts = fold_right2left_spec self ts"
  by (simp add: evaluate_right2left_def fold_right2left_spec_def right2left_loop_foldl
      foldl_conv_foldr)

lemma contains_adjective_trees:
  "\<forall>t \<in> set ts. is_Tree t \<Longrightarrow>
   contains_adjective ts =
     Inr (\<exists>t \<in> set ts. \<exists>l cs. t = Tree l cs \<and> lower l \<in> set adjective_labels)"
proof (induction ts)
  case Nil
  show ?case by simp
next
  case (Cons t ts)
  then obtain l cs where t: "t = Tree l cs" by (cases t) auto
  have adj: "is_adjective l = (lower l \<in> set adjective_labels)"
    by (auto simp: is_adjective_def adjective_labels_def lower_def)
  from Cons show ?case by (auto simp: t adj)
qed

text \<open>
  C1. For a node with more than two children, all of them trees: when the label of a
  child is in the adjective-set (compared in lower case) the evaluation is the
  right-to-left fold with the projection \<open>mmult1\<close> as the default operator of every
  step; otherwise it is the left-to-right fold with the configured default operator.
  The result is the payload of the fold under the parent's label, and when the fold
  has returned the object is as it was before, the default operator included.
\<close>

theorem evaluate_greater_than_2_fold:
  assumes "2 < length tree_list" and "\<forall>t \<in> set tree_list. is_Tree t"
  shows "evaluate_greater_than_2 lib self tree_list parent_label =
     (if (\<exists>t \<in> set tree_list. \<exists>l cs. t = Tree l cs \<and> lower l \<in> set adjective_labels) then
        (case fold_right2left_spec (self\<lparr>default_op := mmult1 lib\<rparr>) tree_list of
           Inl e \<Rightarrow> (Inl e, self\<lparr>default_op := mmult1 lib\<rparr>)
         | Inr r \<Rightarrow> (rewrap parent_label r, self))
      else
        (case fold_left2right_spec self tree_list of
           Inl e \<Rightarrow> (Inl e, self)
         | Inr r \<Rightarrow> (rewrap parent_label r, self)))"
proof (cases "\<exists>t \<in> set tree_list. \<exists>l cs. t = Tree l cs \<and> lower l \<in> set adjective_labels")
  case True
  with assms(2) have "contains_adjective tree_list = Inr True"
    by (simp add: contains_adjective_trees)
  with True assms(1) show ?thesis
    by (simp add: evaluate_greater_than_2_def Let_def rewrap_def evaluate_right2left_spec
        split: sum.splits)
next
  case False
  with assms(2) have scan: "contains_adjective tree_list = Inr False"
    by (simp add: contains_adjective_trees)
  have "evaluate_greater_than_2 lib self tree_list parent_label =
      (case fold_left2right_spec self tree_list of
         Inl e \<Rightarrow> (Inl e, self)
       | Inr r \<Rightarrow> (rewrap parent_label r, self))"
    using scan assms(1)
    by (simp add: evaluate_greater_than_2_def rewrap_def evaluate_left2right_spec
        split: sum.splits)
  then show ?thesis
    by (simp only: if_not_P [OF False])
qed

theorem evaluate_greater_than_2_fold_witness:
  "evaluate_greater_than_2 sample_hl sample_self
      [Tree ''JJ'' [Str ''red''], Tree ''NN'' [Str ''ball''], Tree ''VBZ'' [Str ''flies'']] ''S''
     = (Inr (Tree ''S'' [Vec (2 - (3 - 5))]), sample_self) \<and>
   evaluate_greater_than_2 sample_hl sample_self
      [Tree ''NN'' [Str ''cat''], Tree ''VBZ'' [Str ''sits''], Tree ''NN'' [Str ''ball'']] ''S''
     = (Inr (Tree ''S'' [Vec (2 * (2 * 7 + 11) + 3)]), sample_self)"
  using evaluate_greater_than_2_fold [of
      "[Tree ''JJ'' [Str ''red''], Tree ''NN'' [Str ''ball''], Tree ''VBZ'' [Str ''flies'']]"
      sample_hl sample_self "''S''"]
    evaluate_greater_than_2_fold [of
      "[Tree ''NN'' [Str ''cat''], Tree ''VBZ'' [Str ''sits''], Tree ''NN'' [Str ''ball'']]"
      sample_hl sample_self "''S''"]
  by (simp add: fold_right2left_spec_def fold_left2right_spec_def rewrap_def evaluate_2_def
      binary_operation_def ignore_labels_def adjective_labels_def lower_def lower_char_def
      sample_self_def sample_hl_def sample_vectors_def safe_lookup_def)

text \<open>
  How the label of the running tree moves through a fold: \<open>evaluate_2\<close> wraps its
  result under the label it is given, and each loop gives it the label of the running
  tree itself.
\<close>

lemma evaluate_2_label: "evaluate_2 self a b l = Inr r \<Longrightarrow> label r = Inr l"
  by (auto simp: evaluate_2_def Let_def split: sum.splits if_splits)

lemma left2right_loop_label: "left2right_loop self t xs = Inr c \<Longrightarrow> label c = label t"
proof (induction xs arbitrary: t)
  case Nil
  then show ?case by simp
next
  case (Cons x xs)
  then show ?case
    by (auto split: sum.splits dest!: evaluate_2_label)
qed

lemma right2left_loop_label: "right2left_loop self t xs = Inr c \<Longrightarrow> label c = label t"
proof (induction xs arbitrary: t)
  case Nil
  then show ?case by simp
next
  case (Cons x xs)
  then show ?case
    by (auto split: sum.splits dest!: evaluate_2_label)
qed

lemma left2right_loop_append:
  "left2right_loop self t (xs @ ys) =
     (case left2right_loop self t xs of Inl e \<Rightarrow> Inl e | Inr c \<Rightarrow> left2right_loop self c ys)"
  by (induction xs arbitrary: t) (auto split: sum.splits)

lemma right2left_loop_append:
  "right2left_loop self t (xs @ ys) =
     (case right2left_loop self t xs of Inl e \<Rightarrow> Inl e | Inr c \<Rightarrow> right2left_loop self c ys)"
  by (induction xs arbitrary: t) (auto split: sum.splits)

text \<open>
  C7, as amended. In both folds the running tree carries, at every step, the label of
  the child the fold started from: the leftmost child in the left-to-right fold, the
  rightmost in the right-to-left fold. Cut the children anywhere: the fold of the part
  already consumed returns a tree \<open>c\<close> with that label, and the rest of the fold goes
  on from \<open>c\<close>, so the ignore rules of the next step see that label on the side of
  the running tree. The parent's label is used for the last wrapper only.
\<close>

theorem fold_running_label:
  "(xs \<noteq> [] \<and> evaluate_left2right self (xs @ ys) = Inr r \<longrightarrow>
      (\<exists>c. evaluate_left2right self xs = Inr c \<and> label c = label (hd xs) \<and>
           left2right_loop self c ys = Inr r)) \<and>
   (ys \<noteq> [] \<and> evaluate_right2left self (xs @ ys) = Inr r' \<longrightarrow>
      (\<exists>c. evaluate_right2left self ys = Inr c \<and> label c = label (last ys) \<and>
           right2left_loop self c (rev xs) = Inr r'))"
proof (intro conjI impI)
  assume a: "xs \<noteq> [] \<and> evaluate_left2right self (xs @ ys) = Inr r"
  then obtain x xs' where xs: "xs = x # xs'" by (cases xs) auto
  from a have "left2right_loop self x (xs' @ ys) = Inr r"
    by (simp add: xs evaluate_left2right_def)
  then obtain c where c: "left2right_loop self x xs' = Inr c" "left2right_loop self c ys = Inr r"
    by (auto simp: left2right_loop_append split: sum.splits)
  then show "\<exists>c. evaluate_left2right self xs = Inr c \<and> label c = label (hd xs) \<and>
           left2right_loop self c ys = Inr r"
    by (auto simp: xs evaluate_left2right_def dest: left2right_loop_label)
next
  assume a: "ys \<noteq> [] \<and> evaluate_right2left self (xs @ ys) = Inr r'"
  then have ys: "ys \<noteq> []" and e: "evaluate_right2left self (xs @ ys) = Inr r'"
    by simp_all
  from e ys have "right2left_loop self (last ys) (rev (butlast ys) @ rev xs) = Inr r'"
    by (simp add: evaluate_right2left_def butlast_append)
  then obtain c where c: "right2left_loop self (last ys) (rev (butlast ys)) = Inr c"
      "right2left_loop self c (rev xs) = Inr r'"
    by (auto simp: right2left_loop_append split: sum.splits)
  with a show "\<exists>c. evaluate_right2left self ys = Inr c \<and> label c = label (last ys) \<and>
           right2left_loop self c (rev xs) = Inr r'"
    by (auto simp: evaluate_right2left_def dest: right2left_loop_label)
qed

theorem fold_running_label_witness:
  "(\<exists>c. evaluate_left2right sample_self [Tree ''dt'' [Str ''the''], Tree ''nn'' [Str ''cat'']] = Inr c \<and>
        label c = Inr ''dt'' \<and>
        left2right_loop sample_self c [Tree ''vbz'' [Str ''sits'']] = Inr (Tree ''dt'' [Vec 11])) \<and>
   (\<exists>c. evaluate_right2left sample_self [Tree ''nn'' [Str ''ball''], Tree ''.'' [Str ''flies'']] = Inr c \<and>
        label c = Inr ''.'' \<and>
        right2left_loop sample_self c [Tree ''nn'' [Str ''red'']] = Inr (Tree ''.'' [Vec 2]))"
proof -
  have l: "evaluate_left2right sample_self
        ([Tree ''dt'' [Str ''the''], Tree ''nn'' [Str ''cat'']] @ [Tree ''vbz'' [Str ''sits'']])
      = Inr (Tree ''dt'' [Vec 11])"
    by (simp add: evaluate_left2right_def evaluate_2_def binary_operation_def ignore_labels_def
        sample_self_def sample_hl_def sample_vectors_def safe_lookup_def)
  have r: "evaluate_right2left sample_self
        ([Tree ''nn'' [Str ''red'']] @ [Tree ''nn'' [Str ''ball''], Tree ''.'' [Str ''flies'']])
      = Inr (Tree ''.'' [Vec 2])"
    by (simp add: evaluate_right2left_def evaluate_2_def binary_operation_def ignore_labels_def
        sample_self_def sample_hl_def sample_vectors_def safe_lookup_def)
  from fold_running_label [of "[Tree ''dt'' [Str ''the''], Tree ''nn'' [Str ''cat'']]" sample_self
      "[Tree ''vbz'' [Str ''sits'']]" "Tree ''dt'' [Vec 11]" "Tree ''dt'' [Vec 11]"] l
  have left: "\<exists>c. evaluate_left2right sample_self [Tree ''dt'' [Str ''the''], Tree ''nn'' [Str ''cat'']] = Inr c \<and>
        label c = Inr ''dt'' \<and>
        left2right_loop sample_self c [Tree ''vbz'' [Str ''sits'']] = Inr (Tree ''dt'' [Vec 11])"
    by simp
  from fold_running_label [of "[Tree ''nn'' [Str ''red'']]" sample_self
      "[Tree ''nn'' [Str ''ball''], Tree ''.'' [Str ''flies'']]" "Tree ''.'' [Vec 2]"
      "Tree ''.'' [Vec 2]"] r
  have right: "\<exists>c. evaluate_right2left sample_self [Tree ''nn'' [Str ''ball''], Tree ''.'' [Str ''flies'']] = Inr c \<and>
        label c = Inr ''.'' \<and>
        right2left_loop sample_self c [Tree ''nn'' [Str ''red'']] = Inr (Tree ''.'' [Vec 2])"
    by simp
  from left right show ?thesis by simp
qed

text \<open>
  C7 as stated fails. Under \<^verbatim>\<open>Root\<close>, the children \<^verbatim>\<open>dt/the\<close>, \<^verbatim>\<open>nn/cat\<close>,
  \<^verbatim>\<open>vbz/sits\<close> fold left to right into a tree labelled \<^verbatim>\<open>dt\<close>, not
  \<^verbatim>\<open>Root\<close>; the second step therefore finds an ignore label on the left and passes
  \<^verbatim>\<open>sits\<close> (11) through, where a running tree labelled \<^verbatim>\<open>Root\<close> would have been
  combined with it by the default operator (25).
\<close>

theorem fold_parent_label_counterexample:
  "evaluate_left2right sample_self
      [Tree ''dt'' [Str ''the''], Tree ''nn'' [Str ''cat''], Tree ''vbz'' [Str ''sits'']]
     = Inr (Tree ''dt'' [Vec 11]) \<and>
   evaluate_greater_than_2 sample_hl sample_self
      [Tree ''dt'' [Str ''the''], Tree ''nn'' [Str ''cat''], Tree ''vbz'' [Str ''sits'']] ''Root''
     = (Inr (Tree ''Root'' [Vec 11]), sample_self) \<and>
   evaluate_2 sample_self (Tree ''dt'' [Str ''the'']) (Tree ''nn'' [Str ''cat'']) ''Root''
     = Inr (Tree ''Root'' [Vec 7]) \<and>
   evaluate_2 sample_self (Tree ''Root'' [Vec 7]) (Tree ''vbz'' [Str ''sits'']) ''Root''
     = Inr (Tree ''Root'' [Vec 25])"
  by (simp add: evaluate_greater_than_2_def evaluate_left2right_def evaluate_2_def
      is_adjective_def binary_operation_def ignore_labels_def adjective_labels_def lower_def
      lower_char_def sample_self_def sample_hl_def sample_vectors_def safe_lookup_def)

section \<open>What \<open>evaluate\<close> changes\<close>

lemma evaluate_greater_than_2_state:
  "evaluate_greater_than_2 lib self ts l = (Inr r, self') \<Longrightarrow> self' = self"
  by (auto simp: evaluate_greater_than_2_def Let_def split: if_splits sum.splits bool.splits)

lemma evaluate'_state:
  "evaluate' lib self t = (Inr r, self') \<Longrightarrow> self' = self"
  "evaluate_children lib self ts = (Inr rs, self'') \<Longrightarrow> self'' = self"
proof (induction lib self t and lib self ts arbitrary: r self' and rs self''
    rule: evaluate'_evaluate_children.induct)
  case (1 lib self l cs)
  then show ?case
    by (auto split: prod.splits sum.splits if_splits dest: evaluate_greater_than_2_state)
next
  case (6 lib self child rest)
  then show ?case
    by (auto split: prod.splits sum.splits if_splits bool.splits)
qed simp_all

text \<open>
  C10. A call of \<open>evaluate\<close> that returns changes the field \<open>data\<close> only: the default
  operator and the Vector Source are what they were before the call, also when
  adjective-triggered folds have put the projection in the field on the way.
\<close>

theorem evaluate_frame:
  "evaluate lib self = (Inr u, self') \<Longrightarrow>
     default_op self' = default_op self \<and> word_vectors self' = word_vectors self \<and>
     self' = self\<lparr>data := data self'\<rparr>"
  by (auto simp: evaluate_def split: prod.splits sum.splits dest: evaluate'_state(1))

theorem evaluate_frame_witness:
  "evaluate sample_hl
      (sample_self\<lparr>data := Tree ''S''
          [Tree ''NP'' [Tree ''JJ'' [Str ''red''], Tree ''NN'' [Str ''ball''], Tree ''IN'' [Str ''of'']],
           Tree ''VP'' [Tree ''jj'' [Str ''red''], Tree ''NN'' [Str ''cat''], Tree ''VBZ'' [Str ''sits'']],
           Tree ''VP'' [Tree ''VBZ'' [Str ''flies'']]]\<rparr>)
     = (Inr (), sample_self\<lparr>data := Tree ''S'' [Vec 13]\<rparr>) \<and>
   default_op (sample_self\<lparr>data := Tree ''S'' [Vec 13]\<rparr>) = default_op sample_self \<and>
   word_vectors (sample_self\<lparr>data := Tree ''S'' [Vec 13]\<rparr>) = word_vectors sample_self"
proof -
  have run: "evaluate sample_hl
      (sample_self\<lparr>data := Tree ''S''
          [Tree ''NP'' [Tree ''JJ'' [Str ''red''], Tree ''NN'' [Str ''ball''], Tree ''IN'' [Str ''of'']],
           Tree ''VP'' [Tree ''jj'' [Str ''red''], Tree ''NN'' [Str ''cat''], Tree ''VBZ'' [Str ''sits'']],
           Tree ''VP'' [Tree ''VBZ'' [Str ''flies'']]]\<rparr>)
     = (Inr (), sample_self\<lparr>data := Tree ''S'' [Vec 13]\<rparr>)"
    by (simp add: evaluate_def evaluate_greater_than_2_def evaluate_right2left_def
        evaluate_left2right_def evaluate_2_def is_adjective_def
        binary_operation_def ignore_labels_def adjective_labels_def lower_def lower_char_def
        sample_self_def sample_hl_def sample_vectors_def safe_lookup_def)
  from evaluate_frame [OF run] run show ?thesis by simp
qed

text \<open>
  The frame holds for a call that returns. A token beside subtrees, after an adjective,
  makes the right-to-left fold raise \<open>AttributeError\<close>, and the projection stays
  in the field: the source restores the operator after the fold, with no
  \<^verbatim>\<open>finally\<close>.
\<close>

lemma evaluate_error_keeps_projection:
  "evaluate sample_hl (sample_self\<lparr>data := Tree ''S''
          [Tree ''JJ'' [Str ''red''], Str ''x'', Tree ''NN'' [Str ''ball'']]\<rparr>)
     = (Inl AttributeError, sample_self\<lparr>data := Tree ''S''
          [Tree ''JJ'' [Str ''red''], Str ''x'', Tree ''NN'' [Str ''ball'']], default_op := mmult1 sample_hl\<rparr>)"
  by (simp add: evaluate_def evaluate_greater_than_2_def evaluate_right2left_def
      evaluate_2_def is_adjective_def binary_operation_def ignore_labels_def
      adjective_labels_def lower_def lower_char_def
      sample_self_def sample_hl_def sample_vectors_def safe_lookup_def)

section \<open>The tree that \<open>evaluate\<close> returns\<close>

lemma resolved_resolve: "\<not> is_Tree p \<Longrightarrow> resolved (resolve self p)"
  by (cases p) (auto simp: safe_lookup_def split: option.splits)

lemma resolved_not_Tree: "resolved p \<Longrightarrow> \<not> is_Tree p"
  by (cases p) auto

lemma wrapped_operand: "wrapped t \<Longrightarrow> operand t"
  by (cases t) (auto split: list.splits dest: resolved_not_Tree)

lemma leaf_operand: "tree_is_leaf t = Inr True \<Longrightarrow> operand t"
  by (cases t) (auto split: list.splits)

lemma binary_operation_resolved:
  "resolved x \<Longrightarrow> resolved y \<Longrightarrow> binary_operation self l1 l2 x y = Inr q \<Longrightarrow> resolved q"
  by (cases x; cases y) (auto simp: binary_operation_def split: if_splits)

lemma evaluate_2_wrapped:
  assumes "operand t1" "operand t2" "evaluate_2 self t1 t2 l = Inr r"
  shows "\<exists>q. r = Tree l [q] \<and> resolved q"
proof -
  from assms(3) obtain l1 cs1 l2 cs2 where t: "t1 = Tree l1 cs1" "t2 = Tree l2 cs2"
    by (cases t1; cases t2) (auto simp: evaluate_2_def)
  with assms(1,2) obtain p1 p2 where p: "cs1 = [p1]" "cs2 = [p2]" "\<not> is_Tree p1" "\<not> is_Tree p2"
    by (auto split: list.splits)
  then have "resolved (resolve self p1)" "resolved (resolve self p2)"
    by (simp_all add: resolved_resolve)
  with assms(3) show ?thesis
    by (auto simp: evaluate_2_def t p Let_def split: if_splits sum.splits
        dest: binary_operation_resolved)
qed

lemma left2right_loop_wrapped:
  "operand cur \<Longrightarrow> \<forall>t \<in> set ts. operand t \<Longrightarrow> left2right_loop self cur ts = Inr r \<Longrightarrow>
     (ts = [] \<and> r = cur) \<or> wrapped r"
proof (induction ts arbitrary: cur)
  case Nil
  then show ?case by simp
next
  case (Cons t ts)
  from Cons.prems(3) obtain l c where l: "label cur = Inr l"
    and c: "evaluate_2 self cur t l = Inr c" and r: "left2right_loop self c ts = Inr r"
    by (auto split: sum.splits)
  from evaluate_2_wrapped [OF Cons.prems(1) _ c] Cons.prems(2) have w: "wrapped c" by auto
  from Cons.IH [OF wrapped_operand [OF w] _ r] Cons.prems(2) w show ?case by auto
qed

lemma right2left_loop_wrapped:
  "operand cur \<Longrightarrow> \<forall>t \<in> set ts. operand t \<Longrightarrow> right2left_loop self cur ts = Inr r \<Longrightarrow>
     (ts = [] \<and> r = cur) \<or> wrapped r"
proof (induction ts arbitrary: cur)
  case Nil
  then show ?case by simp
next
  case (Cons t ts)
  from Cons.prems(3) obtain l c where l: "label cur = Inr l"
    and c: "evaluate_2 self t cur l = Inr c" and r: "right2left_loop self c ts = Inr r"
    by (auto split: sum.splits)
  from evaluate_2_wrapped [OF _ Cons.prems(1) c] Cons.prems(2) have w: "wrapped c" by auto
  from Cons.IH [OF wrapped_operand [OF w] _ r] Cons.prems(2) w show ?case by auto
qed

lemma wrapped_getitem0: "wrapped r \<Longrightarrow> getitem0 r = Inr p \<Longrightarrow> resolved p"
  by (cases r) (auto split: list.splits)

lemma evaluate_greater_than_2_wrapped:
  assumes "\<forall>t \<in> set ts. operand t" "evaluate_greater_than_2 lib self ts l = (Inr r, self')"
  shows "\<exists>q. r = Tree l [q] \<and> resolved q"
proof -
  from assms(2) have len: "2 < length ts"
    by (auto simp: evaluate_greater_than_2_def split: if_splits)
  then obtain a b c rest where ts: "ts = a # b # c # rest"
    by (cases ts; cases "tl ts"; cases "tl (tl ts)") auto
  from assms(2) len obtain s r' p where
    f: "evaluate_right2left s ts = Inr r' \<or> evaluate_left2right s ts = Inr r'"
    and p: "getitem0 r' = Inr p" and r: "r = Tree l [p]"
    by (auto simp: evaluate_greater_than_2_def Let_def split: sum.splits bool.splits)
  from f have "wrapped r'"
  proof
    assume "evaluate_right2left s ts = Inr r'"
    then have loop: "right2left_loop s (last ts) (rev (butlast ts)) = Inr r'"
      by (simp add: evaluate_right2left_def ts)
    have "operand (last ts)" using assms(1) by (simp add: ts)
    moreover have "\<forall>t \<in> set (rev (butlast ts)). operand t"
      using assms(1) by (auto dest: in_set_butlastD)
    moreover have "rev (butlast ts) \<noteq> []" by (simp add: ts)
    ultimately show ?thesis using right2left_loop_wrapped [OF _ _ loop] by blast
  next
    assume "evaluate_left2right s ts = Inr r'"
    then have "left2right_loop s a (b # c # rest) = Inr r'"
      by (simp add: evaluate_left2right_def ts)
    from left2right_loop_wrapped [OF _ _ this] assms(1) show ?thesis
      by (auto simp: ts)
  qed
  with p r show ?thesis by (auto dest: wrapped_getitem0)
qed

lemma evaluate'_wrapped:
  "evaluate' lib self t = (Inr r, self') \<Longrightarrow>
     \<exists>l cs q. t = Tree l cs \<and> r = Tree l [q] \<and> resolved q"
  "evaluate_children lib self ts = (Inr rs, self'') \<Longrightarrow> \<forall>t \<in> set rs. operand t"
proof (induction lib self t and lib self ts arbitrary: r self' and rs self''
    rule: evaluate'_evaluate_children.induct)
  case (1 lib self l cs)
  from "1.prems" obtain tree_list self1 where
    ch: "evaluate_children lib self cs = (Inr tree_list, self1)"
    by (auto split: prod.splits sum.splits)
  from "1.IH" [OF ch] have ops: "\<forall>t \<in> set tree_list. operand t" .
  consider "length tree_list = 1" | "length tree_list = 2"
    | "length tree_list \<noteq> 1" "length tree_list \<noteq> 2" by blast
  then show ?case
  proof cases
    case 1
    then obtain t0 where tl: "tree_list = [t0]" by (cases tree_list) auto
    with ops have "operand t0" by simp
    then obtain p where "getitem0 t0 = Inr p" "\<not> is_Tree p"
      by (cases t0) (auto split: list.splits simp: length_Suc_conv)
    with "1.prems" ch tl show ?thesis by (auto simp: resolved_resolve)
  next
    case 2
    then obtain t0 t1 where tl: "tree_list = [t0, t1]"
      by (cases tree_list; cases "tl tree_list") auto
    with "1.prems" ch have "evaluate_2 self1 t0 t1 l = Inr r" by auto
    from evaluate_2_wrapped [OF _ _ this] ops tl show ?thesis by simp
  next
    case 3
    with "1.prems" ch have "evaluate_greater_than_2 lib self1 tree_list l = (Inr r, self')"
      by auto
    from evaluate_greater_than_2_wrapped [OF ops this] show ?thesis by simp
  qed
next
  case (6 lib self child rest)
  show ?case
  proof (cases "tree_is_leaf child")
    case (Inl e)
    with "6.prems" show ?thesis by simp
  next
    case (Inr b)
    show ?thesis
    proof (cases b)
      case True
      then have b: "b = True" by simp
      from True Inr "6.prems" obtain ts where
        ts: "evaluate_children lib self rest = (Inr ts, self'')" and rs: "rs = child # ts"
        by (auto split: prod.splits sum.splits)
      from "6.IH"(1) [OF Inr b ts] leaf_operand [of child] Inr True rs
      show ?thesis by simp
    next
      case False
      then have b: "b = False" by simp
      from False Inr "6.prems" obtain t self1 ts where
        t: "evaluate' lib self child = (Inr t, self1)"
        and ts: "evaluate_children lib self1 rest = (Inr ts, self'')" and rs: "rs = t # ts"
        by (auto split: prod.splits sum.splits)
      from "6.IH"(2) [OF Inr b t] have "operand t" by (auto dest: resolved_not_Tree)
      moreover from "6.IH"(3) [OF Inr b t [symmetric] refl ts]
      have "\<forall>a \<in> set ts. operand a" .
      ultimately show ?thesis by (simp add: rs)
    qed
  qed
qed simp_all

text \<open>
  C5, as amended. When \<open>evaluate\<close> returns, the new \<open>data\<close> is a single node: it
  carries the label of the root of the input and one payload, a vector or
  \<^verbatim>\<open>None\<close>. The branching structure and the labels below the root are not kept.
\<close>

theorem evaluate_result_single_node:
  "evaluate lib self = (Inr u, self') \<Longrightarrow>
     \<exists>l cs q. data self = Tree l cs \<and> data self' = Tree l [q] \<and> resolved q"
  by (auto simp: evaluate_def split: prod.splits sum.splits dest!: evaluate'_wrapped(1))

theorem evaluate_result_single_node_witness:
  "evaluate sample_hl
      (sample_self\<lparr>data := Tree ''S''
          [Tree ''NP'' [Tree ''DT'' [Str ''the''], Tree ''NN'' [Str ''cat'']],
           Tree ''VP'' [Tree ''VBZ'' [Str ''sits'']]]\<rparr>)
     = (Inr (), sample_self\<lparr>data := Tree ''S'' [Vec 25]\<rparr>) \<and>
   (\<exists>l cs q. data (sample_self\<lparr>data := Tree ''S''
          [Tree ''NP'' [Tree ''DT'' [Str ''the''], Tree ''NN'' [Str ''cat'']],
           Tree ''VP'' [Tree ''VBZ'' [Str ''sits'']]]\<rparr>) = Tree l cs \<and>
      data (sample_self\<lparr>data := Tree ''S'' [Vec 25]\<rparr>) = Tree l [q] \<and> resolved q)"
proof -
  have run: "evaluate sample_hl
      (sample_self\<lparr>data := Tree ''S''
          [Tree ''NP'' [Tree ''DT'' [Str ''the''], Tree ''NN'' [Str ''cat'']],
           Tree ''VP'' [Tree ''VBZ'' [Str ''sits'']]]\<rparr>)
     = (Inr (), sample_self\<lparr>data := Tree ''S'' [Vec 25]\<rparr>)"
    by (simp add: evaluate_def evaluate_2_def binary_operation_def ignore_labels_def
        sample_self_def sample_hl_def sample_vectors_def safe_lookup_def)
  from evaluate_result_single_node [OF run] run show ?thesis by blast
qed

text \<open>
  C5 as stated fails. The sentence tree of the specification's own example,
  \<^verbatim>\<open>(S (NP (DT the) (NN cat)) (VP (VBZ sits)))\<close>, evaluates to the single node
  \<^verbatim>\<open>S\<close> with the payload 25 (the default operator on \<^verbatim>\<open>cat\<close> and \<^verbatim>\<open>sits\<close>);
  its shape is neither that of the input nor that of the binarized input.
\<close>

theorem evaluate_shape_counterexample:
  "evaluate sample_hl
      (sample_self\<lparr>data := Tree ''S''
          [Tree ''NP'' [Tree ''DT'' [Str ''the''], Tree ''NN'' [Str ''cat'']],
           Tree ''VP'' [Tree ''VBZ'' [Str ''sits'']]]\<rparr>)
     = (Inr (), sample_self\<lparr>data := Tree ''S'' [Vec 25]\<rparr>) \<and>
   shape (Tree ''S'' [Vec (25::int)]) \<noteq>
     shape (Tree ''S''
          [Tree ''NP'' [Tree ''DT'' [Str ''the''], Tree ''NN'' [Str ''cat'']],
           Tree ''VP'' [Tree ''VBZ'' [Str ''sits'']]] :: int node) \<and>
   tree_to_binary (Tree ''S''
          [Tree ''NP'' [Tree ''DT'' [Str ''the''], Tree ''NN'' [Str ''cat'']],
           Tree ''VP'' [Tree ''VBZ'' [Str ''sits'']]] :: int node)
     = Inr (Tree ''S'' [Tree ''NP'' [Str ''the'', Str ''cat''], Str ''sits'']) \<and>
   shape (Tree ''S'' [Vec (25::int)]) \<noteq>
     shape (Tree ''S'' [Tree ''NP'' [Str ''the'', Str ''cat''], Str ''sits''] :: int node)"
  by (simp add: evaluate_def evaluate_2_def binary_operation_def ignore_labels_def
      sample_self_def sample_hl_def sample_vectors_def safe_lookup_def)

section \<open>Binarization\<close>

lemma tree_to_binary_fixed: "strictly_binary t \<Longrightarrow> tree_to_binary t = Inr t"
proof (induction t)
  case (Tree l cs)
  from Tree.prems obtain a b where cs: "cs = [a, b]"
    by (cases cs; cases "tl cs") auto
  with Tree show ?case by simp
qed simp_all

lemma tree_to_binary_strict:
  "tree_to_binary t = Inr b \<Longrightarrow> strictly_binary (b :: 'v node)"
  "reduce_binary l x ys = Inr r \<Longrightarrow> (ys = [] \<and> r = x) \<or> strictly_binary (r :: 'v node)"
proof (induction t and l x ys arbitrary: b and r rule: tree_to_binary_reduce_binary.induct)
  case (6 l c d rest)
  then show ?case by auto
next
  case (8 l x y ys)
  from "8.prems" obtain x' y' where x: "tree_to_binary x = Inr x'"
    and y: "tree_to_binary y = Inr y'"
    and r: "reduce_binary l (Tree l [x', y']) ys = Inr r"
    by (auto split: sum.splits)
  from "8.IH"(1) [OF x] "8.IH"(2) [OF x y] have "strictly_binary (Tree l [x', y'])" by simp
  with "8.IH"(3) [OF x y r] show ?case by auto
qed auto

text \<open>
  C8, as amended. \<open>tree_to_binary\<close> is idempotent on its own results, and it returns
  unchanged a tree in which every node has exactly two children (its leaves being
  tokens): whenever it returns, its result is such a tree. A node with exactly one
  child is not kept: it is replaced by its binarized child.
\<close>

theorem tree_to_binary_idempotent:
  "(strictly_binary t \<longrightarrow> tree_to_binary t = Inr t) \<and>
   (tree_to_binary t = Inr b \<longrightarrow> strictly_binary b \<and> tree_to_binary b = Inr b)"
  by (auto simp: tree_to_binary_fixed dest: tree_to_binary_strict(1))

theorem tree_to_binary_idempotent_witness:
  "tree_to_binary (Tree [] [Tree [] [Str ''the'', Str ''cat''], Str ''sits''] :: int node)
     = Inr (Tree [] [Tree [] [Str ''the'', Str ''cat''], Str ''sits'']) \<and>
   strictly_binary (Tree ''S'' [Tree ''S'' [Str ''a'', Str ''b''], Str ''c''] :: int node) \<and>
   tree_to_binary (Tree ''S'' [Tree ''S'' [Str ''a'', Str ''b''], Str ''c''] :: int node)
     = Inr (Tree ''S'' [Tree ''S'' [Str ''a'', Str ''b''], Str ''c''])"
proof -
  have sb: "strictly_binary (Tree [] [Tree [] [Str ''the'', Str ''cat''], Str ''sits''] :: int node)"
    by simp
  have run: "tree_to_binary (Tree ''S'' [Tree ''A'' [Str ''a''], Tree ''B'' [Str ''b''],
        Tree ''C'' [Str ''c'']] :: int node)
      = Inr (Tree ''S'' [Tree ''S'' [Str ''a'', Str ''b''], Str ''c''])"
    by simp
  from tree_to_binary_idempotent
      [of "Tree [] [Tree [] [Str ''the'', Str ''cat''], Str ''sits''] :: int node" "NoneV"] sb
    tree_to_binary_idempotent
      [of "Tree ''S'' [Tree ''A'' [Str ''a''], Tree ''B'' [Str ''b''], Tree ''C'' [Str ''c'']] :: int node"
        "Tree ''S'' [Tree ''S'' [Str ''a'', Str ''b''], Str ''c'']"] run
  show ?thesis by blast
qed

text \<open>
  C8 as stated fails. In \<^verbatim>\<open>(S (NP (DT the) (NN cat)))\<close> no node has more than two
  children, yet binarization returns \<^verbatim>\<open>(NP the cat)\<close>: the nodes with one child are
  gone, and the shape is another.
\<close>

theorem tree_to_binary_shape_counterexample:
  "at_most_two (Tree ''S'' [Tree ''NP'' [Tree ''DT'' [Str ''the''], Tree ''NN'' [Str ''cat'']]] :: int node) \<and>
   tree_to_binary (Tree ''S'' [Tree ''NP'' [Tree ''DT'' [Str ''the''], Tree ''NN'' [Str ''cat'']]] :: int node)
     = Inr (Tree ''NP'' [Str ''the'', Str ''cat'']) \<and>
   shape (Tree ''NP'' [Str ''the'', Str ''cat''] :: int node) \<noteq>
     shape (Tree ''S'' [Tree ''NP'' [Tree ''DT'' [Str ''the''], Tree ''NN'' [Str ''cat'']]] :: int node)"
  by simp

section \<open>Construction and the trees the engine receives\<close>

text \<open>
  The library operators are read by \<open>evaluate_greater_than_2\<close> only, and a tree whose
  nodes have one or two children never gets there.
\<close>

lemma evaluate_children_length:
  "evaluate_children lib self ts = (Inr rs, self') \<Longrightarrow> length rs = length ts"
proof (induction ts arbitrary: self rs self')
  case Nil
  then show ?case by simp
next
  case (Cons t ts)
  then show ?case
    by (auto split: sum.splits bool.splits prod.splits)
qed

lemma evaluate'_lib:
  "one_or_two t \<Longrightarrow> evaluate' lib self t = evaluate' lib' self t"
  "list_all one_or_two ts \<Longrightarrow> evaluate_children lib self ts = evaluate_children lib' self ts"
proof (induction lib self t and lib self ts rule: evaluate'_evaluate_children.induct)
  case (1 lib self l cs)
  then have ch: "evaluate_children lib self cs = evaluate_children lib' self cs"
    and len: "length cs = 1 \<or> length cs = 2" by simp_all
  show ?case
  proof (cases "evaluate_children lib' self cs")
    case (Pair res self1)
    show ?thesis
    proof (cases res)
      case (Inl e)
      with Pair ch show ?thesis by simp
    next
      case (Inr tree_list)
      with Pair have "length tree_list = length cs"
        by (auto dest: evaluate_children_length)
      with len Pair Inr ch show ?thesis by auto
    qed
  qed
next
  case (6 lib self child rest)
  show ?case
  proof (cases "tree_is_leaf child")
    case (Inl e)
    then show ?thesis by simp
  next
    case (Inr b)
    show ?thesis
    proof (cases b)
      case True
      then have b: "b = True" by simp
      from "6.IH"(1) [OF Inr b] "6.prems" Inr True show ?thesis by simp
    next
      case False
      then have b: "b = False" by simp
      from "6.prems" have c: "one_or_two child" and r: "list_all one_or_two rest" by simp_all
      have e: "evaluate' lib self child = evaluate' lib' self child"
        using "6.IH"(2) [OF Inr b c] .
      show ?thesis
      proof (cases "evaluate' lib' self child")
        case (Pair res self1)
        show ?thesis
        proof (cases res)
          case (Inl e')
          with Pair e Inr False show ?thesis by simp
        next
          case (Inr t)
          from Pair Inr e have p: "(Inr t, self1) = evaluate' lib self child" by simp
          from "6.IH"(3) [OF \<open>tree_is_leaf child = Inr b\<close> b p refl r]
          show ?thesis using Pair Inr e \<open>tree_is_leaf child = Inr b\<close> False by simp
        qed
      qed
    qed
  qed
qed simp_all

lemma evaluate'_narrow_state:
  "one_or_two t \<Longrightarrow> evaluate' lib self t = (res, self') \<Longrightarrow> self' = self"
  "list_all one_or_two ts \<Longrightarrow> evaluate_children lib self ts = (ress, self'') \<Longrightarrow> self'' = self"
proof (induction lib self t and lib self ts arbitrary: res self' and ress self''
    rule: evaluate'_evaluate_children.induct)
  case (1 lib self l cs)
  then have len: "length cs = 1 \<or> length cs = 2" and all: "list_all one_or_two cs"
    by simp_all
  obtain r0 self1 where ch: "evaluate_children lib self cs = (r0, self1)"
    by (cases "evaluate_children lib self cs")
  from "1.IH" [OF all ch] have s1: "self1 = self" .
  show ?case
  proof (cases r0)
    case (Inl e)
    with ch s1 "1.prems" show ?thesis by simp
  next
    case (Inr tree_list)
    with ch have "length tree_list = length cs" by (auto dest: evaluate_children_length)
    with len ch Inr s1 "1.prems" show ?thesis
      by (auto split: sum.splits)
  qed
next
  case (6 lib self child rest)
  from "6.prems" have c: "one_or_two child" and r: "list_all one_or_two rest" by simp_all
  show ?case
  proof (cases "tree_is_leaf child")
    case (Inl e)
    with "6.prems" show ?thesis by simp
  next
    case (Inr b)
    show ?thesis
    proof (cases b)
      case True
      then have b: "b = True" by simp
      obtain r0 s0 where e: "evaluate_children lib self rest = (r0, s0)"
        by (cases "evaluate_children lib self rest")
      from "6.IH"(1) [OF Inr b r e] have "s0 = self" .
      with e Inr True "6.prems" show ?thesis by (auto split: sum.splits)
    next
      case False
      then have b: "b = False" by simp
      obtain r1 s1 where e1: "evaluate' lib self child = (r1, s1)"
        by (cases "evaluate' lib self child")
      from "6.IH"(2) [OF Inr b c e1] have s1: "s1 = self" .
      show ?thesis
      proof (cases r1)
        case (Inl e)
        with e1 s1 Inr False "6.prems" show ?thesis by simp
      next
        case (Inr t)
        obtain r2 s2 where e2: "evaluate_children lib s1 rest = (r2, s2)"
          by (cases "evaluate_children lib s1 rest")
        from "6.IH"(3) [OF \<open>tree_is_leaf child = Inr b\<close> b e1 [symmetric] Inr r e2]
        have "s2 = s1" .
        with e1 e2 s1 Inr \<open>tree_is_leaf child = Inr b\<close> False "6.prems" show ?thesis
          by (auto split: sum.splits)
      qed
    qed
  qed
qed simp_all

text \<open>
  C6, as amended. The constructor hands the parser's tree to the engine as it is:
  nothing binarizes it. When every node of that tree has one or two children, the
  logic for more than two children is not reached: the evaluation is the same
  whatever the library operators are, which that logic alone reads, and the default
  operator of the object is never replaced, not even when the evaluation fails.
\<close>

theorem construction_keeps_parser_tree:
  "(ParseTree_init fromstring s wv op = Inr pt \<longrightarrow>
      fromstring s = Inr (data pt) \<and> default_op pt = op \<and> word_vectors pt = wv) \<and>
   (one_or_two (data pt) \<longrightarrow>
      evaluate lib pt = evaluate lib' pt \<and> default_op (snd (evaluate lib pt)) = default_op pt)"
proof -
  have "default_op (snd (evaluate lib pt)) = default_op pt" if "one_or_two (data pt)"
  proof (cases "evaluate' lib pt (data pt)")
    case (Pair r s1)
    from evaluate'_narrow_state(1) [OF that Pair] Pair show ?thesis
      by (auto simp: evaluate_def split: sum.splits)
  qed
  then show ?thesis
    by (auto simp: ParseTree_init_def pos_string_to_binary_tree_def evaluate_def
      evaluate'_lib(1) [of "data pt" lib pt lib'] split: sum.splits)
qed

theorem construction_keeps_parser_tree_witness:
  "ParseTree_init bracket_parse ''(S (NP (DT the) (NN cat)) (VP (VBZ sits)))''
       sample_vectors (mult sample_hl)
     = Inr (sample_self\<lparr>data := Tree ''S''
          [Tree ''NP'' [Tree ''DT'' [Str ''the''], Tree ''NN'' [Str ''cat'']],
           Tree ''VP'' [Tree ''VBZ'' [Str ''sits'']]]\<rparr>) \<and>
   bracket_parse ''(S (NP (DT the) (NN cat)) (VP (VBZ sits)))''
     = Inr (Tree ''S''
          [Tree ''NP'' [Tree ''DT'' [Str ''the''], Tree ''NN'' [Str ''cat'']],
           Tree ''VP'' [Tree ''VBZ'' [Str ''sits'']]] :: int node) \<and>
   evaluate sample_hl (sample_self\<lparr>data := Tree ''S''
          [Tree ''NP'' [Tree ''DT'' [Str ''the''], Tree ''NN'' [Str ''cat'']],
           Tree ''VP'' [Tree ''VBZ'' [Str ''sits'']]]\<rparr>)
     = evaluate (sample_hl\<lparr>mmult1 := (+)\<rparr>) (sample_self\<lparr>data := Tree ''S''
          [Tree ''NP'' [Tree ''DT'' [Str ''the''], Tree ''NN'' [Str ''cat'']],
           Tree ''VP'' [Tree ''VBZ'' [Str ''sits'']]]\<rparr>)"
proof -
  have init: "ParseTree_init bracket_parse ''(S (NP (DT the) (NN cat)) (VP (VBZ sits)))''
       sample_vectors (mult sample_hl)
     = Inr (sample_self\<lparr>data := Tree ''S''
          [Tree ''NP'' [Tree ''DT'' [Str ''the''], Tree ''NN'' [Str ''cat'']],
           Tree ''VP'' [Tree ''VBZ'' [Str ''sits'']]]\<rparr>)"
    by (simp add: ParseTree_init_def pos_string_to_binary_tree_def bracket_parse_def
        is_blank_def sample_self_def)
  have bin: "one_or_two (data (sample_self\<lparr>data := Tree ''S''
          [Tree ''NP'' [Tree ''DT'' [Str ''the''], Tree ''NN'' [Str ''cat'']],
           Tree ''VP'' [Tree ''VBZ'' [Str ''sits'']]]\<rparr>))"
    by simp
  from construction_keeps_parser_tree [of bracket_parse
      "''(S (NP (DT the) (NN cat)) (VP (VBZ sits)))''" sample_vectors "mult sample_hl"
      "sample_self\<lparr>data := Tree ''S''
          [Tree ''NP'' [Tree ''DT'' [Str ''the''], Tree ''NN'' [Str ''cat'']],
           Tree ''VP'' [Tree ''VBZ'' [Str ''sits'']]]\<rparr>"
      sample_hl "sample_hl\<lparr>mmult1 := (+)\<rparr>"] init bin
  show ?thesis by simp
qed

text \<open>
  C6 as stated fails. The bracketed string \<^verbatim>\<open>(S (JJ red) (NN ball) (VBZ flies))\<close>
  is stored with its three children under \<^verbatim>\<open>S\<close>, and its evaluation is the
  right-to-left fold with the projection: \<open>2 - (3 - 5)\<close> with the projection
  \<open>a - b\<close>, and \<open>2 + (3 + 5)\<close> when the projection is replaced by \<open>a + b\<close>.
\<close>

theorem bracketed_wide_node_counterexample:
  "ParseTree_init bracket_parse ''(S (JJ red) (NN ball) (VBZ flies))''
       sample_vectors (mult sample_hl)
     = Inr (sample_self\<lparr>data := Tree ''S''
          [Tree ''JJ'' [Str ''red''], Tree ''NN'' [Str ''ball''], Tree ''VBZ'' [Str ''flies'']]\<rparr>) \<and>
   \<not> at_most_two (Tree ''S''
          [Tree ''JJ'' [Str ''red''], Tree ''NN'' [Str ''ball''], Tree ''VBZ'' [Str ''flies'']] :: int node) \<and>
   evaluate sample_hl (sample_self\<lparr>data := Tree ''S''
          [Tree ''JJ'' [Str ''red''], Tree ''NN'' [Str ''ball''], Tree ''VBZ'' [Str ''flies'']]\<rparr>)
     = (Inr (), sample_self\<lparr>data := Tree ''S'' [Vec (2 - (3 - 5))]\<rparr>) \<and>
   evaluate (sample_hl\<lparr>mmult1 := (+)\<rparr>) (sample_self\<lparr>data := Tree ''S''
          [Tree ''JJ'' [Str ''red''], Tree ''NN'' [Str ''ball''], Tree ''VBZ'' [Str ''flies'']]\<rparr>)
     = (Inr (), sample_self\<lparr>data := Tree ''S'' [Vec (2 + (3 + 5))]\<rparr>)"
  by (simp add: ParseTree_init_def pos_string_to_binary_tree_def bracket_parse_def
      is_blank_def evaluate_def evaluate_greater_than_2_def evaluate_right2left_def
      evaluate_2_def is_adjective_def binary_operation_def ignore_labels_def
      adjective_labels_def lower_def lower_char_def
      sample_self_def sample_hl_def sample_vectors_def safe_lookup_def)

text \<open>
  C9, as amended. A flat construction (no bracket in the sentence, a delimiter that is
  not empty, the initial object built) with a list of tags whose length differs from
  the number of pieces of the sentence fails with \<open>AssertionError\<close>.
\<close>

theorem from_sentence_tag_mismatch:
  assumes "CHR ''('' \<notin> set sentence" and "delimiter \<noteq> []"
    and "fromstring ''()'' = Inr t0"
    and "length tags \<noteq> length (split_loop delimiter [] sentence)"
  shows "from_sentence fromstring lib sentence wv delimiter (Some tags) = Inl AssertionError"
  using assms
  by (simp add: from_sentence_def ParseTree_init_def pos_string_to_binary_tree_def split_def)

theorem from_sentence_tag_mismatch_witness:
  "CHR ''('' \<notin> set ''red ball flies'' \<and> '' '' \<noteq> [] \<and>
   (bracket_parse ''()'' :: error + int node) = Inr (Tree [] []) \<and>
   length [''jj'', ''nn''] \<noteq> length (split_loop '' '' [] ''red ball flies'') \<and>
   from_sentence bracket_parse sample_hl ''red ball flies'' sample_vectors '' ''
       (Some [''jj'', ''nn'']) = Inl AssertionError"
proof -
  have a: "CHR ''('' \<notin> set ''red ball flies''" by simp
  have b: "'' '' \<noteq> []" by simp
  have c: "(bracket_parse ''()'' :: error + int node) = Inr (Tree [] [])"
    by (simp add: bracket_parse_def)
  have d: "length [''jj'', ''nn''] \<noteq> length (split_loop '' '' [] ''red ball flies'')"
    by simp
  from from_sentence_tag_mismatch [of "''red ball flies''" "'' ''" bracket_parse "Tree [] []"
      "[''jj'', ''nn'']" sample_hl sample_vectors, OF a b c d] a b c d
  show ?thesis by simp
qed

text \<open>
  C9 as stated fails: two tokens with one tag raise \<open>AssertionError\<close>, which is not
  the \<open>ShapeMismatchError\<close> of the specification.
\<close>

theorem from_sentence_error_counterexample:
  "from_sentence bracket_parse sample_hl ''red ball'' sample_vectors '' '' (Some [''jj''])
     = Inl AssertionError \<and>
   from_sentence bracket_parse sample_hl ''red ball'' sample_vectors '' '' (Some [''jj''])
     \<noteq> Inl ShapeMismatchError"
  by (simp add: from_sentence_def ParseTree_init_def pos_string_to_binary_tree_def split_def
      bracket_parse_def)

section \<open>Case of the labels\<close>

text \<open>
  C4. The Operator Selector compares the labels with the ignore-set as they are
  written, so \<^verbatim>\<open>DT\<close> and \<^verbatim>\<open>dt\<close> are classified differently: with \<^verbatim>\<open>DT\<close> on
  the left the default operator is applied, with \<^verbatim>\<open>dt\<close> the right operand passes
  through. The test for adjectives lowers the label first, so \<^verbatim>\<open>JJ\<close> and \<^verbatim>\<open>jj\<close>
  agree there. The same two sentence trees, evaluated, give \<open>2 * 2 + 7\<close> and \<open>7\<close>.
\<close>

theorem ignore_labels_case_sensitive:
  "binary_operation self ''DT'' ''NN'' (Vec a) (Vec b) = Inr (Vec (default_op self a b)) \<and>
   binary_operation self ''dt'' ''NN'' (Vec a) (Vec b) = Inr (Vec b) \<and>
   is_adjective ''JJ'' = is_adjective ''jj'' \<and>
   evaluate sample_hl (sample_self\<lparr>data := Tree ''NP''
        [Tree ''DT'' [Str ''red''], Tree ''NN'' [Str ''cat'']]\<rparr>)
     = (Inr (), sample_self\<lparr>data := Tree ''NP'' [Vec (2 * 2 + 7)]\<rparr>) \<and>
   evaluate sample_hl (sample_self\<lparr>data := Tree ''NP''
        [Tree ''dt'' [Str ''red''], Tree ''NN'' [Str ''cat'']]\<rparr>)
     = (Inr (), sample_self\<lparr>data := Tree ''NP'' [Vec 7]\<rparr>)"
  by (simp add: evaluate_def evaluate_2_def is_adjective_def binary_operation_def
      ignore_labels_def adjective_labels_def lower_def lower_char_def
      sample_self_def sample_hl_def sample_vectors_def safe_lookup_def)

end
